theory Spec2Isabelle
  imports Complex_Main "HOL-Library.AList"
begin

section \<open>Python values, errors and text files\<close>

text \<open>
  The raster codec (\<^verbatim>\<open>src/python/dclaw/topotools.py\<close>) and the AMR frame codec
  (\<^verbatim>\<open>src/python/pyclaw/io/ascii.py\<close>) are Python. Exceptions are values of
  \<open>pyerror\<close>; a function that can raise returns \<open>pyerror + 'a\<close>. Python floats are
  modelled by real numbers; a non-finite literal (\<^verbatim>\<open>nan\<close>, \<^verbatim>\<open>inf\<close>) and a
  float division by zero have no real value and are reported as \<open>NonFinite\<close>.
  A text file is the list of its lines (without the line terminator); reading past the
  end gives the empty string, as \<^verbatim>\<open>readline\<close> does.
\<close>

datatype pyerror =
    NameError string
  | AttributeError string
  | UnboundLocalError string
  | IndexError
  | KeyError
  | TypeError
  | ValueError
  | NotImplementedError
  | ZeroDivisionError
  | IOError
  | NonFinite

datatype pyval = PNone | PInt int | PFloat real | PStr string

type_synonym pydict = "(string \<times> pyval) list"

type_synonym filesystem = "string \<rightharpoonup> string list"

definition bnd :: "pyerror + 'a \<Rightarrow> ('a \<Rightarrow> pyerror + 'b) \<Rightarrow> pyerror + 'b" where
  "bnd m f = (case m of Inl e \<Rightarrow> Inl e | Inr x \<Rightarrow> f x)"

definition readline :: "string list \<Rightarrow> string" where
  "readline fid = (case fid of [] \<Rightarrow> [] | l # _ \<Rightarrow> l)"

definition is_space :: "char \<Rightarrow> bool" where
  "is_space c = (c \<in> set [CHR '' '', CHR 0x09, CHR 0x0A, CHR 0x0B, CHR 0x0C, CHR 0x0D,
                          CHR 0x1C, CHR 0x1D, CHR 0x1E, CHR 0x1F])"

fun split_acc :: "string \<Rightarrow> string \<Rightarrow> string list" where
  "split_acc cur [] = (if cur = [] then [] else [rev cur])"
| "split_acc cur (c # cs) =
     (if is_space c then (if cur = [] then split_acc [] cs else rev cur # split_acc [] cs)
      else split_acc (c # cur) cs)"

definition split :: "string \<Rightarrow> string list" where
  "split s = split_acc [] s"

definition char_lower :: "char \<Rightarrow> char" where
  "char_lower c =
     (case map_of (zip ''ABCDEFGHIJKLMNOPQRSTUVWXYZ'' ''abcdefghijklmnopqrstuvwxyz'') c of
        Some d \<Rightarrow> d | None \<Rightarrow> c)"

definition lower :: "string \<Rightarrow> string" where
  "lower s = map char_lower s"

fun contains :: "string \<Rightarrow> string \<Rightarrow> bool" where
  "contains sub [] = (sub = [])"
| "contains sub (c # cs) = (take (length sub) (c # cs) = sub \<or> contains sub cs)"

subsection \<open>The builtins \<^verbatim>\<open>int\<close> and \<^verbatim>\<open>float\<close> on a token\<close>

text \<open>
  Every string the codec converts is a token of \<^verbatim>\<open>split()\<close>, so it holds no white
  space. \<open>py_int\<close> accepts an optional sign and decimal digits; \<open>py_float\<close> accepts an
  optional sign, digits with an optional point, and an optional exponent, case-insensitively.
\<close>

definition digit_val :: "char \<Rightarrow> nat option" where
  "digit_val c = map_of (zip ''0123456789'' [0, 1, 2, 3, 4, 5, 6, 7, 8, 9]) c"

fun digits_val :: "nat \<Rightarrow> string \<Rightarrow> nat option" where
  "digits_val acc [] = Some acc"
| "digits_val acc (c # cs) =
     (case digit_val c of None \<Rightarrow> None | Some d \<Rightarrow> digits_val (10 * acc + d) cs)"

definition strip_sign :: "string \<Rightarrow> bool \<times> string" where
  "strip_sign s =
     (case s of
        [] \<Rightarrow> (False, [])
      | c # cs \<Rightarrow> if c = CHR ''-'' then (True, cs) else if c = CHR ''+'' then (False, cs)
                 else (False, s))"

definition parse_signed :: "string \<Rightarrow> int option" where
  "parse_signed s =
     (let (neg, r) = strip_sign s in
      if r = [] then None
      else (case digits_val 0 r of
              None \<Rightarrow> None
            | Some n \<Rightarrow> Some (if neg then - int n else int n)))"

definition py_int :: "string \<Rightarrow> pyerror + int" where
  "py_int s = (case parse_signed s of None \<Rightarrow> Inl ValueError | Some i \<Rightarrow> Inr i)"

definition parse_mantissa :: "string \<Rightarrow> real option" where
  "parse_mantissa m =
     (let ip = takeWhile (\<lambda>c. c \<noteq> CHR ''.'') m;
          fp = drop (Suc (length ip)) m
      in if ip = [] \<and> fp = [] then None
         else (case (digits_val 0 ip, digits_val 0 fp) of
                 (Some a, Some b) \<Rightarrow> Some (real a + real b / 10 ^ length fp)
               | _ \<Rightarrow> None))"

definition scale10 :: "real \<Rightarrow> int \<Rightarrow> real" where
  "scale10 x e = (if 0 \<le> e then x * 10 ^ nat e else x / 10 ^ nat (- e))"

definition py_float_lower :: "string \<Rightarrow> pyerror + real" where
  "py_float_lower s =
     (let (neg, r) = strip_sign s in
      if r \<in> set [''nan'', ''inf'', ''infinity''] then Inl NonFinite
      else
        (let m = takeWhile (\<lambda>c. c \<noteq> CHR ''e'') r;
             ex = (if length m < length r then parse_signed (drop (Suc (length m)) r)
                   else Some 0)
         in case (parse_mantissa m, ex) of
              (Some v, Some e) \<Rightarrow> Inr (scale10 (if neg then - v else v) e)
            | _ \<Rightarrow> Inl ValueError))"

definition py_float :: "string \<Rightarrow> pyerror + real" where
  "py_float s = py_float_lower (lower s)"

section \<open>Header codec: \<^verbatim>\<open>topoheaderread\<close>\<close>

definition topoheader0 :: pydict where
  "topoheader0 =
     [(''ncols'', PInt 0), (''nrows'', PInt 0), (''xll'', PFloat 0), (''yll'', PFloat 0),
      (''cellsize'', PFloat 0), (''nodata_value'', PInt 0)]"

definition keylist :: "string list" where
  "keylist = map fst topoheader0"

definition keymap :: "string \<rightharpoonup> string" where
  "keymap = map_of
     [(''ncols'', ''ncols''), (''nrows'', ''nrows''), (''xll'', ''xll''), (''yll'', ''yll''),
      (''cellsize'', ''cellsize''), (''nodata_value'', ''nodata_value''),
      (''xllcenter'', ''xll''), (''yllcenter'', ''yll''),
      (''xllcorner'', ''xll''), (''yllcorner'', ''yll''),
      (''xlower'', ''xll''), (''ylower'', ''yll'')]"

text \<open>
  One pass of the body of the \<^verbatim>\<open>while keyleft > 0\<close> loop on the tokens of a line.
  \<^verbatim>\<open>iotools.convertd2e\<close> is not part of the sources at hand and is a parameter.
  A non-empty line with a single token raises IndexError at \<^verbatim>\<open>line[1]\<close>.
\<close>

definition header_line ::
  "(string \<Rightarrow> string) \<Rightarrow> string list \<Rightarrow> pydict \<times> int \<Rightarrow> pyerror + (pydict \<times> int)" where
  "header_line convertd2e line st =
     (case line of
        [] \<Rightarrow> Inr st
      | [t0] \<Rightarrow> Inl IndexError
      | t0 # t1 # _ \<Rightarrow>
          (let st1 = (case keymap (lower t0) of
                        Some k \<Rightarrow> (AList.update k (PStr (convertd2e t1)) (fst st), snd st - 1)
                      | None \<Rightarrow> st);
               st2 = (case keymap (lower t1) of
                        Some k \<Rightarrow> (AList.update k (PStr (convertd2e t0)) (fst st1), snd st1 - 1)
                      | None \<Rightarrow> st1)
           in Inr st2))"

text \<open>
  The loop itself. It has no exit at the end of the file: \<^verbatim>\<open>readline\<close> then returns
  the empty string, the line is empty and \<^verbatim>\<open>keyleft\<close> stays as it is. The result
  \<open>None\<close> stands for a loop that never returns.
\<close>

partial_function (option) header_loop ::
  "(string \<Rightarrow> string) \<Rightarrow> string list \<Rightarrow> pydict \<Rightarrow> int
     \<Rightarrow> (pyerror + (pydict \<times> string list)) option" where
  "header_loop convertd2e fid topoheader keyleft =
     (if keyleft > 0 then
        (case header_line convertd2e (split (readline fid)) (topoheader, keyleft) of
           Inl e \<Rightarrow> Some (Inl e)
         | Inr st \<Rightarrow> header_loop convertd2e (tl fid) (fst st) (snd st))
      else Some (Inr (topoheader, fid)))"

text \<open>The conversion of the collected strings: float when the string holds a point,
  \<^verbatim>\<open>nan\<close> or an \<^verbatim>\<open>e\<close>, int otherwise. A key that still holds its numeric default
  raises TypeError at the \<^verbatim>\<open>in\<close> test.\<close>

definition convert_value :: "pyval \<Rightarrow> pyerror + pyval" where
  "convert_value v =
     (case v of
        PStr s \<Rightarrow>
          (if CHR ''.'' \<in> set s \<or> contains ''nan'' (lower s) \<or> CHR ''e'' \<in> set (lower s)
           then bnd (py_float s) (\<lambda>r. Inr (PFloat r))
           else bnd (py_int s) (\<lambda>i. Inr (PInt i)))
      | _ \<Rightarrow> Inl TypeError)"

fun convert_keys :: "string list \<Rightarrow> pydict \<Rightarrow> pyerror + pydict" where
  "convert_keys [] th = Inr th"
| "convert_keys (key # keys) th =
     (case map_of th key of
        None \<Rightarrow> convert_keys keys th
      | Some v \<Rightarrow> bnd (convert_value v) (\<lambda>v'. convert_keys keys (AList.update key v' th)))"

text \<open>\<^verbatim>\<open>topoheaderread\<close> returns the header and the open file positioned after the
  header (the caller that passes \<^verbatim>\<open>closefile=True\<close> drops the file).\<close>

definition topoheaderread ::
  "(string \<Rightarrow> string) \<Rightarrow> filesystem \<Rightarrow> string
     \<Rightarrow> (pyerror + (string list \<times> pydict)) option" where
  "topoheaderread convertd2e fs inputfile =
     (case fs inputfile of
        None \<Rightarrow> Some (Inl IOError)
      | Some fid \<Rightarrow>
          (case header_loop convertd2e fid topoheader0 (int (length keylist)) of
             None \<Rightarrow> None
           | Some (Inl e) \<Rightarrow> Some (Inl e)
           | Some (Inr (th, fid')) \<Rightarrow>
               Some (bnd (convert_keys keylist th) (\<lambda>th'. Inr (fid', th')))))"


section \<open>Arrays\<close>

text \<open>
  A two-dimensional numpy array is the list of its rows. Indexing follows Python: a
  negative index counts from the end, and an index out of range raises IndexError.
\<close>

type_synonym array = "real list list"

definition py_index :: "'a list \<Rightarrow> int \<Rightarrow> pyerror + 'a" where
  "py_index xs i =
     (let k = (if i < 0 then i + int (length xs) else i)
      in if 0 \<le> k \<and> k < int (length xs) then Inr (xs ! nat k) else Inl IndexError)"

definition idx2 :: "'a list list \<Rightarrow> int \<Rightarrow> int \<Rightarrow> pyerror + 'a" where
  "idx2 A i j = bnd (py_index A i) (\<lambda>r. py_index r j)"

fun mapM :: "('a \<Rightarrow> pyerror + 'b) \<Rightarrow> 'a list \<Rightarrow> pyerror + 'b list" where
  "mapM f [] = Inr []"
| "mapM f (x # xs) = bnd (f x) (\<lambda>y. bnd (mapM f xs) (\<lambda>ys. Inr (y # ys)))"

definition column :: "'a list list \<Rightarrow> int \<Rightarrow> pyerror + 'a list" where
  "column A j = mapM (\<lambda>r. py_index r j) A"

fun chunks :: "nat \<Rightarrow> nat \<Rightarrow> 'a list \<Rightarrow> 'a list list" where
  "chunks 0 n xs = []"
| "chunks (Suc r) n xs = take n xs # chunks r n (drop n xs)"

definition linspace :: "real \<Rightarrow> real \<Rightarrow> nat \<Rightarrow> real list" where
  "linspace start stop num =
     (if num = 1 then [start]
      else map (\<lambda>i. start + real i * ((stop - start) / real (num - 1))) [0..<num])"

definition meshgrid :: "real list \<Rightarrow> real list \<Rightarrow> array \<times> array" where
  "meshgrid x y = (map (\<lambda>_. x) y, map (\<lambda>v. map (\<lambda>_. v) x) y)"

definition flipud :: "array \<Rightarrow> array" where
  "flipud A = rev A"

section \<open>Raster grid codec: reading\<close>

definition header_dim :: "pydict \<Rightarrow> string \<Rightarrow> pyerror + nat" where
  "header_dim th key =
     (case map_of th key of
        None \<Rightarrow> Inl KeyError
      | Some (PInt i) \<Rightarrow> if i < 0 then Inl ValueError else Inr (nat i)
      | Some _ \<Rightarrow> Inl TypeError)"

definition header_num :: "pydict \<Rightarrow> string \<Rightarrow> pyerror + real" where
  "header_num th key =
     (case map_of th key of
        None \<Rightarrow> Inl KeyError
      | Some (PInt i) \<Rightarrow> Inr (real_of_int i)
      | Some (PFloat r) \<Rightarrow> Inr r
      | Some _ \<Rightarrow> Inl TypeError)"

text \<open>
  \<^verbatim>\<open>np.array(zdata)\<close> followed by \<^verbatim>\<open>np.reshape(Z, (nrows, ncols))\<close>: the rows must
  have one length and hold \<open>nrows * ncols\<close> values in all, otherwise ValueError; a header
  dimension that is not an int raises TypeError, a negative one ValueError (here or in
  \<^verbatim>\<open>np.linspace\<close>).
\<close>

definition np_array_reshape :: "array \<Rightarrow> nat \<Rightarrow> nat \<Rightarrow> pyerror + array" where
  "np_array_reshape zdata nrows ncols =
     (if (\<exists>r \<in> set zdata. length r \<noteq> length (hd zdata)) then Inl ValueError
      else if length (concat zdata) \<noteq> nrows * ncols then Inl ValueError
      else Inr (chunks nrows ncols (concat zdata)))"

text \<open>
  Modelled from the spec: \<^verbatim>\<open>iotools.datafile2array\<close> is not among the sources at hand;
  the spec describes a topotype-1 file as whitespace-separated \<^verbatim>\<open>x y z\<close> triples, one
  per line, which this loads as the rows of an array.
\<close>

definition datafile2array :: "filesystem \<Rightarrow> string \<Rightarrow> pyerror + array" where
  "datafile2array fs inputfile =
     (case fs inputfile of
        None \<Rightarrow> Inl IOError
      | Some fid \<Rightarrow> mapM (\<lambda>l. mapM py_float (split l)) fid)"

definition np_diff :: "real list \<Rightarrow> real list" where
  "np_diff xs = map (\<lambda>(a, b). b - a) (zip xs (tl xs))"

text \<open>
  Attribute access on a numpy array. The names listed are the attributes and methods an
  \<^verbatim>\<open>ndarray\<close> has; any other name raises AttributeError.
\<close>

definition ndarray_attributes :: "string list" where
  "ndarray_attributes =
     [''T'', ''all'', ''any'', ''argmax'', ''argmin'', ''argsort'', ''astype'', ''base'',
      ''clip'', ''copy'', ''cumsum'', ''data'', ''diagonal'', ''dot'', ''dtype'', ''fill'',
      ''flat'', ''flatten'', ''imag'', ''item'', ''itemsize'', ''max'', ''mean'', ''min'',
      ''nbytes'', ''ndim'', ''nonzero'', ''prod'', ''ravel'', ''real'', ''repeat'',
      ''reshape'', ''resize'', ''round'', ''shape'', ''size'', ''sort'', ''squeeze'',
      ''std'', ''strides'', ''sum'', ''swapaxes'', ''take'', ''tolist'', ''trace'',
      ''transpose'', ''var'', ''view'']"

definition ndarray_getattr :: "string \<Rightarrow> pyerror + string" where
  "ndarray_getattr name =
     (if name \<in> set ndarray_attributes then Inr name else Inl (AttributeError name))"

text \<open>
  \<^verbatim>\<open>topofile2griddata\<close>. For \<^verbatim>\<open>topotype > 1\<close> the header is read, the remaining
  lines are converted to floats and reshaped, and the coordinate meshes are built from
  the header. Otherwise the row length is looked for with
  \<^verbatim>\<open>inddiff = (xdiff < 0).np.argmax()\<close>; were \<^verbatim>\<open>np\<close> an attribute, the next statement
  \<^verbatim>\<open>inddiff[0]\<close> would index the integer that \<^verbatim>\<open>argmax\<close> returns.
\<close>

definition topofile2griddata ::
  "(string \<Rightarrow> string) \<Rightarrow> filesystem \<Rightarrow> string \<Rightarrow> int
     \<Rightarrow> (pyerror + (array \<times> array \<times> array)) option" where
  "topofile2griddata convertd2e fs inputfile topotype =
     (if topotype > 1 then
        (case topoheaderread convertd2e fs inputfile of
           None \<Rightarrow> None
         | Some (Inl e) \<Rightarrow> Some (Inl e)
         | Some (Inr (fin, topoheader)) \<Rightarrow> Some (
             bnd (mapM (\<lambda>row. mapM py_float (split (convertd2e row))) fin) (\<lambda>zdata.
             bnd (header_dim topoheader ''nrows'') (\<lambda>nrows.
             bnd (header_dim topoheader ''ncols'') (\<lambda>ncols.
             bnd (np_array_reshape zdata nrows ncols) (\<lambda>Z.
             bnd (header_num topoheader ''xll'') (\<lambda>xlower.
             bnd (header_num topoheader ''yll'') (\<lambda>ylower.
             bnd (header_num topoheader ''cellsize'') (\<lambda>cellsize.
               let xupper = xlower + cellsize * (real ncols - 1);
                   yupper = ylower + cellsize * (real nrows - 1);
                   x = linspace xlower xupper ncols;
                   y = linspace ylower yupper nrows;
                   (X, Y) = meshgrid x y
               in Inr (X, flipud Y, Z))))))))))
      else Some (
        bnd (datafile2array fs inputfile) (\<lambda>a.
        bnd (column a 0) (\<lambda>x.
          let xdiff = np_diff x;
              mask = map (\<lambda>d. d < 0) xdiff
          in bnd (ndarray_getattr ''np'') (\<lambda>_. Inl IndexError)))))"


section \<open>Raster grid codec: writing\<close>

text \<open>
  \<^verbatim>\<open>"%s" % v\<close> for an int is its decimal numeral. For a float it is Python's shortest
  round-trip representation, which the real-number model cannot compute: it is the
  parameter \<open>str_float\<close> of every function that writes floats.
\<close>

definition digit_char :: "nat \<Rightarrow> char" where
  "digit_char d = ''0123456789'' ! d"

fun str_nat :: "nat \<Rightarrow> string" where
  "str_nat n = (if n < 10 then [digit_char n] else str_nat (n div 10) @ [digit_char (n mod 10)])"

declare str_nat.simps [simp del]

definition str_int :: "int \<Rightarrow> string" where
  "str_int i = (if i < 0 then CHR ''-'' # str_nat (nat (- i)) else str_nat (nat i))"

definition str_val :: "(real \<Rightarrow> string) \<Rightarrow> pyval \<Rightarrow> string" where
  "str_val str_float v =
     (case v of PNone \<Rightarrow> ''None'' | PInt i \<Rightarrow> str_int i | PFloat r \<Rightarrow> str_float r
      | PStr s \<Rightarrow> s)"

definition float_of :: "pyval \<Rightarrow> pyerror + real" where
  "float_of v =
     (case v of PNone \<Rightarrow> Inl TypeError | PInt i \<Rightarrow> Inr (real_of_int i) | PFloat r \<Rightarrow> Inr r
      | PStr s \<Rightarrow> py_float s)"

definition py_truthy :: "pyval \<Rightarrow> bool" where
  "py_truthy v =
     (case v of PNone \<Rightarrow> False | PInt i \<Rightarrow> i \<noteq> 0 | PFloat r \<Rightarrow> r \<noteq> 0 | PStr s \<Rightarrow> s \<noteq> [])"

definition newline :: string where
  "newline = [CHR 0x0A]"

text \<open>A file being written is the string written so far; when it is closed the file
  system holds its lines.\<close>

fun lines_acc :: "string \<Rightarrow> string \<Rightarrow> string list" where
  "lines_acc cur [] = (if cur = [] then [] else [rev cur])"
| "lines_acc cur (c # cs) =
     (if c = CHR 0x0A then rev cur # lines_acc [] cs else lines_acc (c # cur) cs)"

definition lines_of :: "string \<Rightarrow> string list" where
  "lines_of s = lines_acc [] s"

fun write_seq :: "('a \<Rightarrow> pyerror + string) \<Rightarrow> 'a list \<Rightarrow> string \<Rightarrow> (pyerror + unit) \<times> string" where
  "write_seq f [] buf = (Inr (), buf)"
| "write_seq f (x # xs) buf =
     (case f x of Inl e \<Rightarrow> (Inl e, buf) | Inr s \<Rightarrow> write_seq f xs (buf @ s))"

definition header_field :: "(real \<Rightarrow> string) \<Rightarrow> pydict \<Rightarrow> string \<times> bool \<Rightarrow> pyerror + string" where
  "header_field str_float topoheader kf =
     (case map_of topoheader (fst kf) of
        None \<Rightarrow> Inl KeyError
      | Some v \<Rightarrow>
          if snd kf then bnd (float_of v) (\<lambda>r. Inr (str_float r @ '' '' @ fst kf @ newline))
          else Inr (str_val str_float v @ '' '' @ fst kf @ newline))"

text \<open>\<^verbatim>\<open>topoheaderwrite\<close> opens the file for writing and writes the six lines, value
  first; \<^verbatim>\<open>xll\<close>, \<^verbatim>\<open>yll\<close> and \<^verbatim>\<open>cellsize\<close> pass through \<^verbatim>\<open>float()\<close>.\<close>

definition topoheaderwrite :: "(real \<Rightarrow> string) \<Rightarrow> pydict \<Rightarrow> (pyerror + unit) \<times> string" where
  "topoheaderwrite str_float topoheader =
     write_seq (header_field str_float topoheader)
       [(''ncols'', False), (''nrows'', False), (''xll'', True), (''yll'', True),
        (''cellsize'', True), (''nodata_value'', False)] []"

text \<open>
  Name resolution inside \<^verbatim>\<open>griddata2topofile\<close>. The local names bound to arrays are
  the parameters; a name that is not local is looked up among the module's globals
  (its imports, \<^verbatim>\<open>Rearth\<close> and its functions, none of them subscriptable) and then
  raises NameError.
\<close>

definition module_globals :: "string list" where
  "module_globals =
     [''os'', ''string'', ''np'', ''fixdata'', ''iotools'', ''Rearth'', ''get_topo'',
      ''topo1writer'', ''topo2writer'', ''gcdist'', ''dx_from_gcdist'', ''scatter2gridded'',
      ''topoheaderwrite'', ''esriheaderwrite'', ''topoheaderread'', ''topofile2griddata'',
      ''griddata2topofile'', ''griddata2gtif'', ''converttopotype'', ''griddatasubset'',
      ''topofilefindz'', ''griddatafindz'', ''topofilesubset'', ''topofilesubsample'',
      ''topofileinterpolate'', ''scatter2smoothgridded'', ''griddatasubsample'',
      ''removenodata_value'', ''changenodata_value'', ''burnin_nodata_value'',
      ''merge_topofiles'', ''clip_surface'', ''swapheader'', ''esriheader'',
      ''topoboundary'', ''create_topo_func'', ''calculate_resolution'']"

definition lookup_array :: "(string \<times> array) list \<Rightarrow> string \<Rightarrow> pyerror + array" where
  "lookup_array locals name =
     (case map_of locals name of
        Some a \<Rightarrow> Inr a
      | None \<Rightarrow> if name \<in> set module_globals then Inl TypeError else Inl (NameError name))"

definition float_div :: "real \<Rightarrow> real \<Rightarrow> pyerror + real" where
  "float_div a b = (if b = 0 then Inl NonFinite else Inr (a / b))"

definition cells :: "nat \<Rightarrow> nat \<Rightarrow> (nat \<times> nat) list" where
  "cells nrows ncols = concat (map (\<lambda>i. map (\<lambda>j. (i, j)) [0..<ncols]) [0..<nrows])"

definition cells_rows :: "nat \<Rightarrow> nat \<Rightarrow> (nat \<times> nat) option list" where
  "cells_rows nrows ncols =
     concat (map (\<lambda>i. map (\<lambda>j. Some (i, j)) [0..<ncols] @ [None]) [0..<nrows])"

text \<open>
  \<^verbatim>\<open>griddata2topofile(X, Y, Q, outputfile, topotype, nodata_value_in, nodata_value_out)\<close>.
  The parameter holding the values is \<^verbatim>\<open>Q\<close>; the body reads \<^verbatim>\<open>Z\<close>, first in
  \<^verbatim>\<open>nrows = len(Z[:, 0])\<close>. The first part computes the header, the second opens the
  file and writes.
\<close>

definition griddata2topofile_header ::
  "array \<Rightarrow> array \<Rightarrow> array \<Rightarrow> pyval \<Rightarrow> pyerror + (array \<times> nat \<times> nat \<times> pydict)" where
  "griddata2topofile_header X Y Q nodata_value_out =
     (let locals = [(''X'', X), (''Y'', Y), (''Q'', Q)] in
      bnd (lookup_array locals ''Z'') (\<lambda>Z.
      bnd (column Z 0) (\<lambda>c0.
      bnd (py_index Z 0) (\<lambda>r0.
      let nrows = length c0; ncols = length r0 in
      bnd (idx2 X 0 0) (\<lambda>xllcc.
      bnd (idx2 Y (- 1) 0) (\<lambda>yllcc.
      bnd (idx2 X 0 (- 1)) (\<lambda>xuppercc.
      bnd (idx2 Y 0 0) (\<lambda>yuppercc.
      bnd (float_div (xuppercc - xllcc) (real ncols - 1)) (\<lambda>cellsizeX.
      bnd (float_div (yuppercc - yllcc) (real nrows - 1)) (\<lambda>cellsizeY.
      let xll = xllcc - 0.5 * cellsizeX;
          yll = yllcc - 0.5 * cellsizeY;
          topoheader = [(''nrows'', PInt (int nrows)), (''ncols'', PInt (int ncols)),
                        (''xll'', PFloat xll), (''yll'', PFloat yll),
                        (''cellsize'', PFloat cellsizeX),
                        (''nodata_value'', nodata_value_out)]
      in Inr (Z, nrows, ncols, topoheader)))))))))))"

definition griddata2topofile ::
  "(real \<Rightarrow> string) \<Rightarrow> array \<Rightarrow> array \<Rightarrow> array \<Rightarrow> string \<Rightarrow> int \<Rightarrow> pyval \<Rightarrow> pyval
     \<Rightarrow> filesystem \<Rightarrow> (pyerror + unit) \<times> filesystem" where
  "griddata2topofile str_float X Y Q outputfile topotype nodata_value_in nodata_value_out fs =
     (case griddata2topofile_header X Y Q nodata_value_out of
        Inl e \<Rightarrow> (Inl e, fs)
      | Inr (Z, nrows, ncols, topoheader) \<Rightarrow>
          (let value = (\<lambda>A ij. bnd (idx2 A (int (fst ij)) (int (snd ij)))
                                  (\<lambda>v. Inr (str_float v)));
               (r, buf) =
                 (if topotype = 2 then
                    (case topoheaderwrite str_float topoheader of
                       (Inl e, buf) \<Rightarrow> (Inl e, buf)
                     | (Inr _, buf) \<Rightarrow>
                         write_seq (\<lambda>ij. bnd (value Z ij) (\<lambda>z. Inr (z @ newline)))
                           (cells nrows ncols) buf)
                  else if topotype = 3 then
                    (case topoheaderwrite str_float topoheader of
                       (Inl e, buf) \<Rightarrow> (Inl e, buf)
                     | (Inr _, buf) \<Rightarrow>
                         write_seq (\<lambda>c. case c of
                                      None \<Rightarrow> Inr newline
                                    | Some ij \<Rightarrow> bnd (value Z ij) (\<lambda>z. Inr (z @ ''   '')))
                           (cells_rows nrows ncols) buf)
                  else
                    write_seq (\<lambda>ij. bnd (value X ij) (\<lambda>x. bnd (value Y ij) (\<lambda>y.
                                 bnd (value Z ij) (\<lambda>z.
                                   Inr (x @ '' '' @ y @ '' '' @ z @ newline)))))
                      (cells nrows ncols) [])
           in (r, fs(outputfile \<mapsto> lines_of buf))))"

text \<open>\<^verbatim>\<open>converttopotype\<close>: read, find the nodata value, write.\<close>

definition header_nodata ::
  "(string \<Rightarrow> string) \<Rightarrow> filesystem \<Rightarrow> string \<Rightarrow> int \<Rightarrow> pyval \<Rightarrow> (pyerror + pyval) option" where
  "header_nodata convertd2e fs inputfile topotypein nodata_value =
     (if topotypein > 1 \<and> \<not> py_truthy nodata_value then
        (case topoheaderread convertd2e fs inputfile of
           None \<Rightarrow> None
         | Some (Inl e) \<Rightarrow> Some (Inl e)
         | Some (Inr (_, topoheader)) \<Rightarrow>
             Some (case map_of topoheader ''nodata_value'' of
                     None \<Rightarrow> Inl KeyError | Some v \<Rightarrow> Inr v))
      else Some (Inr nodata_value))"

definition converttopotype ::
  "(string \<Rightarrow> string) \<Rightarrow> (real \<Rightarrow> string) \<Rightarrow> string \<Rightarrow> string \<Rightarrow> int \<Rightarrow> int \<Rightarrow> pyval
     \<Rightarrow> filesystem \<Rightarrow> ((pyerror + unit) \<times> filesystem) option" where
  "converttopotype convertd2e str_float inputfile outputfile topotypein topotypeout
       nodata_value fs =
     (case topofile2griddata convertd2e fs inputfile topotypein of
        None \<Rightarrow> None
      | Some (Inl e) \<Rightarrow> Some (Inl e, fs)
      | Some (Inr (X, Y, Z)) \<Rightarrow>
          (case header_nodata convertd2e fs inputfile topotypein nodata_value of
             None \<Rightarrow> None
           | Some (Inl e) \<Rightarrow> Some (Inl e, fs)
           | Some (Inr nodata_value') \<Rightarrow>
               Some (griddata2topofile str_float X Y Z outputfile topotypeout
                       nodata_value' nodata_value' fs)))"


section \<open>Grid transforms: subset\<close>

definition np_where :: "('a \<Rightarrow> bool) \<Rightarrow> 'a list \<Rightarrow> nat list" where
  "np_where P xs = filter (\<lambda>i. P (xs ! i)) [0..<length xs]"

definition np_ix :: "array \<Rightarrow> nat list \<Rightarrow> nat list \<Rightarrow> pyerror + array" where
  "np_ix A yind xind =
     mapM (\<lambda>i. bnd (py_index A (int i)) (\<lambda>r. mapM (\<lambda>j. py_index r (int j)) xind)) yind"

definition griddatasubset ::
  "array \<Rightarrow> array \<Rightarrow> array \<Rightarrow> real \<Rightarrow> real \<Rightarrow> real \<Rightarrow> real \<Rightarrow> pyerror + (array \<times> array \<times> array)" where
  "griddatasubset X Y Z xlow xhi ylow yhi =
     bnd (py_index X 0) (\<lambda>X0.
     bnd (column Y 0) (\<lambda>Y0.
       let xind = np_where (\<lambda>v. v \<ge> xlow \<and> v \<le> xhi) X0;
           yind = np_where (\<lambda>v. v \<le> yhi \<and> v \<ge> ylow) Y0
       in bnd (np_ix X yind xind) (\<lambda>Xsub.
          bnd (np_ix Y yind xind) (\<lambda>Ysub.
          bnd (np_ix Z yind xind) (\<lambda>Zsub. Inr (Xsub, Ysub, Zsub))))))"

text \<open>
  The streaming branch of \<^verbatim>\<open>topofilesubset\<close> (\<^verbatim>\<open>cheap=True\<close>). Header values are
  Python numbers, so a zero \<^verbatim>\<open>cellsize\<close> raises ZeroDivisionError; \<^verbatim>\<open>int()\<close>
  truncates towards zero. The state of the copying loop is the input file, the output
  written so far, \<^verbatim>\<open>outpts\<close> and \<^verbatim>\<open>writtenpts\<close>.
\<close>

definition py_div :: "real \<Rightarrow> real \<Rightarrow> pyerror + real" where
  "py_div a b = (if b = 0 then Inl ZeroDivisionError else Inr (a / b))"

definition py_trunc :: "real \<Rightarrow> int" where
  "py_trunc r = (if 0 \<le> r then \<lfloor>r\<rfloor> else \<lceil>r\<rceil>)"

definition header_range :: "pydict \<Rightarrow> string \<Rightarrow> pyerror + nat" where
  "header_range th key =
     (case map_of th key of
        None \<Rightarrow> Inl KeyError
      | Some (PInt i) \<Rightarrow> Inr (nat i)
      | Some _ \<Rightarrow> Inl TypeError)"

type_synonym subset_state = "string list \<times> string \<times> int \<times> int"

definition subset_cell ::
  "real \<Rightarrow> real \<Rightarrow> real \<Rightarrow> real \<Rightarrow> real \<Rightarrow> real \<Rightarrow> subset_state \<Rightarrow> subset_state" where
  "subset_cell xlow xhi ylow yhi x y st =
     (case st of (fidin, buf, outpts, writtenpts) \<Rightarrow>
        let zdata = split (readline fidin);
            written = (if (xlow \<le> x \<and> x \<le> xhi) \<and> (ylow \<le> y \<and> y < yhi) then zdata else []);
            buf' = buf @ concat (map (\<lambda>t. t @ ''  '') written);
            buf'' = (if written \<noteq> [] then buf' @ newline else buf')
        in (tl fidin, buf'', outpts - int (length written), writtenpts + int (length written)))"

definition subset_sweep ::
  "real \<Rightarrow> real \<Rightarrow> real \<Rightarrow> real \<Rightarrow> real \<Rightarrow> real \<Rightarrow> real \<Rightarrow> nat \<Rightarrow> nat \<Rightarrow> subset_state
     \<Rightarrow> subset_state" where
  "subset_sweep xlow xhi ylow yhi xll yupper cellsize nrows ncols st =
     foldl (\<lambda>s rc. subset_cell xlow xhi ylow yhi
                     (xll + real (snd rc) * cellsize) (yupper - real (fst rc) * cellsize) s)
       st (cells nrows ncols)"

partial_function (option) subset_while ::
  "(subset_state \<Rightarrow> subset_state) \<Rightarrow> subset_state \<Rightarrow> subset_state option" where
  "subset_while sweep st =
     (if 0 < fst (snd (snd st)) then subset_while sweep (sweep st) else Some st)"

definition subset_header ::
  "pydict \<Rightarrow> real \<Rightarrow> real \<Rightarrow> real \<Rightarrow> real \<Rightarrow> pyerror + (pydict \<times> int \<times> real \<times> real \<times> real)" where
  "subset_header topoheaderin xlow xhi ylow yhi =
     (case (map_of topoheaderin ''nodata_value'', map_of topoheaderin ''cellsize'') of
        (None, _) \<Rightarrow> Inl KeyError
      | (_, None) \<Rightarrow> Inl KeyError
      | (Some nodata_value_in, Some cellsize_in) \<Rightarrow>
     bnd (header_num topoheaderin ''ncols'') (\<lambda>ncols.
     bnd (header_num topoheaderin ''nrows'') (\<lambda>nrows.
     bnd (header_num topoheaderin ''yll'') (\<lambda>yll.
     bnd (header_num topoheaderin ''xll'') (\<lambda>xll.
     bnd (header_num topoheaderin ''cellsize'') (\<lambda>cellsize.
       let yupper = yll + cellsize * (nrows - 1);
           xupper = xll + cellsize * (ncols - 1);
           xupperout = min xupper xhi;
           xlowout = max xlow xll;
           yupperout = min yupper yhi;
           ylowout = max yll ylow
       in bnd (py_div (xupperout - xlowout) cellsize) (\<lambda>qx.
          bnd (py_div (yupperout - ylowout) cellsize) (\<lambda>qy.
          bnd (py_div (xlowout - xll) cellsize) (\<lambda>qj.
          bnd (py_div (ylowout - yll) cellsize) (\<lambda>qi.
            let ncolsout = py_trunc (qx + 1);
                nrowsout = py_trunc (qy + 1);
                j = real_of_int \<lceil>qj + 1\<rceil>;
                xllout = xll + (j - 1) * cellsize;
                i = real_of_int \<lceil>qi + 1\<rceil>;
                yllout = yll + (i - 1) * cellsize;
                theadout = [(''xll'', PFloat xllout), (''yll'', PFloat yllout),
                            (''ncols'', PInt ncolsout), (''nrows'', PInt nrowsout),
                            (''cellsize'', cellsize_in),
                            (''nodata_value'', nodata_value_in)]
            in Inr (theadout, ncolsout * nrowsout, xll, yupper, cellsize)))))))))))"

definition topofilesubset_cheap ::
  "(string \<Rightarrow> string) \<Rightarrow> (real \<Rightarrow> string) \<Rightarrow> string \<Rightarrow> string \<Rightarrow> int
     \<Rightarrow> real \<Rightarrow> real \<Rightarrow> real \<Rightarrow> real \<Rightarrow> filesystem \<Rightarrow> ((pyerror + unit) \<times> filesystem) option" where
  "topofilesubset_cheap convertd2e str_float inputfile outputfile topotypein
       xlow xhi ylow yhi fs =
     (if topotypein = 1 then Some (Inr (), fs)
      else
        (case topoheaderread convertd2e fs inputfile of
           None \<Rightarrow> None
         | Some (Inl e) \<Rightarrow> Some (Inl e, fs)
         | Some (Inr (fidin, topoheaderin)) \<Rightarrow>
             (case subset_header topoheaderin xlow xhi ylow yhi of
                Inl e \<Rightarrow> Some (Inl e, fs)
              | Inr (theadout, outpts, xll, yupper, cellsize) \<Rightarrow>
                  (case topoheaderwrite str_float theadout of
                     (Inl e, buf) \<Rightarrow> Some (Inl e, fs(outputfile \<mapsto> lines_of buf))
                   | (Inr _, buf) \<Rightarrow>
                       if topotypein > 1 \<and> 0 < outpts then
                         (case bnd (header_range topoheaderin ''nrows'') (\<lambda>nrows.
                               bnd (header_range topoheaderin ''ncols'') (\<lambda>ncols.
                                 Inr (nrows, ncols))) of
                            Inl e \<Rightarrow> Some (Inl e, fs(outputfile \<mapsto> lines_of buf))
                          | Inr (nrows, ncols) \<Rightarrow>
                              (case subset_while
                                      (subset_sweep xlow xhi ylow yhi xll yupper cellsize
                                         nrows ncols)
                                      (fidin, buf, outpts, 0) of
                                 None \<Rightarrow> None
                               | Some (_, buf', _, _) \<Rightarrow>
                                   Some (Inr (), fs(outputfile \<mapsto> lines_of buf'))))
                       else Some (Inr (), fs(outputfile \<mapsto> lines_of buf))))))"

text \<open>\<^verbatim>\<open>topofilesubset\<close>: the materializing branch reads the whole grid, takes the subset
  in memory and writes it with \<^verbatim>\<open>griddata2topofile\<close>.\<close>

definition topofilesubset ::
  "(string \<Rightarrow> string) \<Rightarrow> (real \<Rightarrow> string) \<Rightarrow> string \<Rightarrow> string \<Rightarrow> int \<Rightarrow> int
     \<Rightarrow> real \<Rightarrow> real \<Rightarrow> real \<Rightarrow> real \<Rightarrow> pyval \<Rightarrow> bool \<Rightarrow> filesystem
     \<Rightarrow> ((pyerror + unit) \<times> filesystem) option" where
  "topofilesubset convertd2e str_float inputfile outputfile topotypein topotypeout
       xlow xhi ylow yhi nodata_value_in cheap fs =
     (if \<not> cheap then
        (case topofile2griddata convertd2e fs inputfile topotypein of
           None \<Rightarrow> None
         | Some (Inl e) \<Rightarrow> Some (Inl e, fs)
         | Some (Inr (X, Y, Z)) \<Rightarrow>
             (case header_nodata convertd2e fs inputfile topotypein nodata_value_in of
                None \<Rightarrow> None
              | Some (Inl e) \<Rightarrow> Some (Inl e, fs)
              | Some (Inr nodata_value_in') \<Rightarrow>
                  (case griddatasubset X Y Z xlow xhi ylow yhi of
                     Inl e \<Rightarrow> Some (Inl e, fs)
                   | Inr (Xsub, Ysub, Zsub) \<Rightarrow>
                       Some (griddata2topofile str_float Xsub Ysub Zsub outputfile topotypeout
                               nodata_value_in' nodata_value_in' fs))))
      else topofilesubset_cheap convertd2e str_float inputfile outputfile topotypein
             xlow xhi ylow yhi fs)"

section \<open>Point sampler\<close>








section \<open>Vocabulary of the properties\<close>

text \<open>The examples write integral floats only; Python prints such a float as its
  integer part followed by \<^verbatim>\<open>.0\<close>.\<close>

definition str_float_integral :: "real \<Rightarrow> string" where
  "str_float_integral r = str_int \<lfloor>r\<rfloor> @ ''.0''"

text \<open>A token is a non-empty string without white space. A header entry is a key of
  \<open>keymap\<close> (in any case) with a numeric token; a header is written value first or key
  first.\<close>

definition token :: "string \<Rightarrow> bool" where
  "token s = (s \<noteq> [] \<and> (\<forall>c \<in> set s. \<not> is_space c))"

definition header_entry :: "string \<times> string \<Rightarrow> bool" where
  "header_entry kv =
     (token (fst kv) \<and> token (snd kv) \<and> keymap (lower (fst kv)) \<noteq> None
      \<and> py_float (snd kv) \<noteq> Inl ValueError)"

definition value_first :: "(string \<times> string) list \<Rightarrow> string list" where
  "value_first kvs = map (\<lambda>kv. snd kv @ '' '' @ fst kv) kvs"

definition key_first :: "(string \<times> string) list \<Rightarrow> string list" where
  "key_first kvs = map (\<lambda>kv. fst kv @ '' '' @ snd kv) kvs"




definition scenarioA :: "string list" where
  "scenarioA = [''3 ncols'', ''2 nrows'', ''0.0 xll'', ''0.0 yll'', ''1.0 cellsize'',
                ''-9999 nodata_value'', ''1.0'', ''2.0'', ''3.0'', ''4.0'', ''5.0'', ''6.0'']"


section \<open>Verified properties\<close>

subsection \<open>Helper facts: the sum monad and lists\<close>

lemma bnd_Inr [simp]: "bnd (Inr x) f = f x"
  by (simp add: bnd_def)

lemma bnd_Inl [simp]: "bnd (Inl e) f = Inl e"
  by (simp add: bnd_def)






subsection \<open>Header codec\<close>

lemma header_loop_eof_aux:
  assumes "header_loop cv fid th k = Some y"
  shows "\<not> (fid = [] \<and> 0 < k)"
proof (rule header_loop.raw_induct[where P="\<lambda>cv fid th k y. \<not> (fid = [] \<and> 0 < k)", OF _ assms])
  fix f :: "(string \<Rightarrow> string) \<Rightarrow> string list \<Rightarrow> pydict \<Rightarrow> int \<Rightarrow> (pyerror + (pydict \<times> string list)) option"
  fix cv fid th k y
  assume IH: "\<And>cv fid th k y. f cv fid th k = Some y \<Longrightarrow> \<not> (fid = [] \<and> 0 < k)"
    and step: "(if 0 < k
      then case header_line cv (split (readline fid)) (th, k) of
           Inl e \<Rightarrow> Some (Inl e)
           | Inr st \<Rightarrow> f cv (tl fid) (fst st) (snd st)
      else Some (Inr (th, fid))) = Some y"
  show "\<not> (fid = [] \<and> 0 < k)"
  proof
    assume eof: "fid = [] \<and> 0 < k"
    with step have "f cv [] th k = Some y"
      by (simp add: header_line_def split_def readline_def)
    with IH eof show False by blast
  qed
qed

lemma header_loop_eof: "0 < keyleft \<Longrightarrow> header_loop cv [] th keyleft = None"
  using header_loop_eof_aux[of cv "[]" th keyleft] by (cases "header_loop cv [] th keyleft") auto

lemma header_loop_line:
  "0 < n \<Longrightarrow> header_loop cv (l # ls) th n =
     (case header_line cv (split l) (th, n) of
        Inl e \<Rightarrow> Some (Inl e)
      | Inr st \<Rightarrow> header_loop cv ls (fst st) (snd st))"
  by (subst header_loop.simps) (simp add: readline_def cong: sum.case_cong)

lemma header_loop_done: "n \<le> 0 \<Longrightarrow> header_loop cv fid th n = Some (Inr (th, fid))"
  by (subst header_loop.simps) simp

lemmas header_loop_eval = header_loop_line header_loop_done header_loop_eof

lemmas token_eval = split_def is_space_def lower_def char_lower_def keymap_def header_line_def

lemmas number_eval = py_float_def py_float_lower_def py_int_def parse_signed_def
  strip_sign_def parse_mantissa_def scale10_def digit_val_def lower_def char_lower_def

lemmas header_eval = topoheaderread_def header_loop_eval token_eval topoheader0_def keylist_def
  convert_value_def number_eval

lemma split_acc_token:
  "\<forall>c\<in>set k. \<not> is_space c \<Longrightarrow> split_acc cur (k @ rest) = split_acc (rev k @ cur) rest"
  by (induction k arbitrary: cur) auto

lemma split_token: "token b \<Longrightarrow> split_acc [] b = [b]"
  using split_acc_token[of b "[]" "[]"] by (simp add: token_def)

lemma split_pair: "token a \<Longrightarrow> token b \<Longrightarrow> split (a @ CHR '' '' # b) = [a, b]"
proof -
  assume a: "token a" and b: "token b"
  have "split_acc [] (a @ CHR '' '' # b) = split_acc (rev a) (CHR '' '' # b)"
    using a split_acc_token[of a "[]" "CHR '' '' # b"] by (simp add: token_def)
  also have "\<dots> = a # split_acc [] b"
    using a by (simp add: is_space_def token_def)
  finally show ?thesis using b by (simp add: split_def split_token)
qed

lemma keymap_dom:
  "keymap s \<noteq> None \<Longrightarrow>
   s \<in> set [''ncols'', ''nrows'', ''xll'', ''yll'', ''cellsize'', ''nodata_value'',
            ''xllcenter'', ''yllcenter'', ''xllcorner'', ''yllcorner'', ''xlower'', ''ylower'']"
  by (auto simp: keymap_def split: if_splits)

lemma key_not_float:
  "s \<in> set [''ncols'', ''nrows'', ''xll'', ''yll'', ''cellsize'', ''nodata_value'',
            ''xllcenter'', ''yllcenter'', ''xllcorner'', ''yllcorner'', ''xlower'', ''ylower'']
   \<Longrightarrow> py_float_lower s = Inl ValueError"
  by (auto simp: py_float_lower_def parse_signed_def strip_sign_def parse_mantissa_def digit_val_def)

lemma numeric_not_key:
  assumes "py_float v \<noteq> Inl ValueError"
  shows "keymap (lower v) = None"
proof (rule ccontr)
  assume "keymap (lower v) \<noteq> None"
  then have "py_float_lower (lower v) = Inl ValueError"
    by (intro key_not_float keymap_dom)
  with assms show False by (simp add: py_float_def)
qed

lemma header_line_swap:
  "keymap (lower k) \<noteq> None \<Longrightarrow> keymap (lower v) = None
   \<Longrightarrow> header_line cv [v, k] st = header_line cv [k, v] st"
  by (auto simp: header_line_def)

lemma header_line_entry:
  "keymap (lower k) = Some c \<Longrightarrow> keymap (lower v) = None
   \<Longrightarrow> header_line cv [k, v] (th, n) = Inr (AList.update c (PStr (cv v)) th, n - 1)"
  by (simp add: header_line_def)

lemma header_loop_swap:
  "\<forall>kv \<in> set kvs. header_entry kv \<Longrightarrow> int (length kvs) \<le> n
   \<Longrightarrow> header_loop cv (value_first kvs @ rest) th n = header_loop cv (key_first kvs @ rest) th n"
proof (induction kvs arbitrary: th n)
  case Nil
  then show ?case by (simp add: value_first_def key_first_def)
next
  case (Cons kv kvs)
  obtain k v where kv: "kv = (k, v)" by (cases kv)
  from Cons.prems kv have e: "token k" "token v" "keymap (lower k) \<noteq> None" "keymap (lower v) = None"
    by (auto simp: header_entry_def numeric_not_key)
  from e obtain c where c: "keymap (lower k) = Some c" by auto
  from Cons.prems have n: "0 < n" "int (length kvs) \<le> n - 1" by auto
  have IH: "header_loop cv (value_first kvs @ rest) th' (n - 1)
            = header_loop cv (key_first kvs @ rest) th' (n - 1)" for th'
    using Cons.IH[of "n - 1" th'] Cons.prems n by auto
  show ?case
    using n e c IH
    by (simp add: value_first_def key_first_def kv header_loop_line split_pair
        header_line_swap[of k v] header_line_entry)
qed

lemma header_loop_returns:
  "\<forall>kv \<in> set kvs. header_entry kv
   \<Longrightarrow> \<exists>th'. header_loop cv (key_first kvs @ rest) th (int (length kvs)) = Some (Inr (th', rest))"
proof (induction kvs arbitrary: th)
  case Nil
  then show ?case by (simp add: key_first_def header_loop_done)
next
  case (Cons kv kvs)
  obtain k v where kv: "kv = (k, v)" by (cases kv)
  from Cons.prems kv have e: "token k" "token v" "keymap (lower k) \<noteq> None" "keymap (lower v) = None"
    by (auto simp: header_entry_def numeric_not_key)
  from e obtain c where c: "keymap (lower k) = Some c" by auto
  from Cons.IH[of "AList.update c (PStr (cv v)) th"] Cons.prems
  obtain th' where "header_loop cv (key_first kvs @ rest) (AList.update c (PStr (cv v)) th)
                      (int (length kvs)) = Some (Inr (th', rest))" by auto
  then show ?case
    using e c by (simp add: key_first_def kv header_loop_line split_pair header_line_entry)
qed

text \<open>
  Claim C5 (header parse order-independence). For every header of six lines, each made
  of a key of the key map (canonical or synonym, in any case) and a numeric token,
  \<^verbatim>\<open>topoheaderread\<close> gives the same result whether every line is written value first
  or key first, and it returns. The data lines \<open>rest\<close> that follow the header, the
  file name, the other files and \<^verbatim>\<open>convertd2e\<close> are arbitrary.
\<close>

theorem topoheaderread_order_independent:
  assumes "length kvs = 6" and "\<forall>kv \<in> set kvs. header_entry kv"
  shows "topoheaderread cv (fs(f \<mapsto> value_first kvs @ rest)) f
           = topoheaderread cv (fs(f \<mapsto> key_first kvs @ rest)) f
         \<and> topoheaderread cv (fs(f \<mapsto> key_first kvs @ rest)) f \<noteq> None"
proof -
  have "header_loop cv (value_first kvs @ rest) topoheader0 6
          = header_loop cv (key_first kvs @ rest) topoheader0 6"
    using header_loop_swap[of kvs 6 cv rest topoheader0] assms by simp
  moreover obtain th' where
    "header_loop cv (key_first kvs @ rest) topoheader0 6 = Some (Inr (th', rest))"
    using header_loop_returns[of kvs cv rest topoheader0] assms by auto
  ultimately show ?thesis
    by (simp add: topoheaderread_def keylist_def topoheader0_def)
qed

theorem topoheaderread_order_independent_witness:
  "topoheaderread id [''f'' \<mapsto> [''3 ncols'', ''2 NROWS'', ''0.0 xllcorner'', ''0.0 yll'',
                                   ''1.0 cellsize'', ''-9999 nodata_value'']] ''f''
     = topoheaderread id [''f'' \<mapsto> [''ncols 3'', ''NROWS 2'', ''xllcorner 0.0'', ''yll 0.0'',
                                   ''cellsize 1.0'', ''nodata_value -9999'']] ''f''
   \<and> topoheaderread id [''f'' \<mapsto> [''ncols 3'', ''NROWS 2'', ''xllcorner 0.0'', ''yll 0.0'',
                                   ''cellsize 1.0'', ''nodata_value -9999'']] ''f''
     = Some (Inr ([], [(''ncols'', PInt 3), (''nrows'', PInt 2), (''xll'', PFloat 0),
                       (''yll'', PFloat 0), (''cellsize'', PFloat 1),
                       (''nodata_value'', PInt (- 9999))]))"
proof -
  let ?kvs = "[(''ncols'', ''3''), (''NROWS'', ''2''), (''xllcorner'', ''0.0''), (''yll'', ''0.0''),
               (''cellsize'', ''1.0''), (''nodata_value'', ''-9999'')]"
  have h: "\<forall>kv \<in> set ?kvs. header_entry kv"
    by (simp add: header_entry_def token_def token_eval number_eval)
  have "topoheaderread id (Map.empty(''f'' \<mapsto> value_first ?kvs @ [])) ''f''
          = topoheaderread id (Map.empty(''f'' \<mapsto> key_first ?kvs @ [])) ''f''"
    using topoheaderread_order_independent[of ?kvs id Map.empty "''f''" "[]"] h by simp
  moreover have "topoheaderread id [''f'' \<mapsto> [''ncols 3'', ''NROWS 2'', ''xllcorner 0.0'', ''yll 0.0'',
                                   ''cellsize 1.0'', ''nodata_value -9999'']] ''f''
     = Some (Inr ([], [(''ncols'', PInt 3), (''nrows'', PInt 2), (''xll'', PFloat 0),
                       (''yll'', PFloat 0), (''cellsize'', PFloat 1),
                       (''nodata_value'', PInt (- 9999))]))"
    by (simp add: header_eval)
  ultimately show ?thesis
    by (simp add: value_first_def key_first_def)
qed

text \<open>
  Claim C4 (header parse failure). The claim asks for a reported error when the lines
  run out before the six keys are resolved. The loop has no such exit: on the empty file,
  and on a file holding only five of the six header lines, \<^verbatim>\<open>topoheaderread\<close> never
  returns. The check \<^verbatim>\<open>ERROR: topoheader not fully specified\<close> placed after the loop is
  never reached with a key missing.
\<close>

theorem topoheaderread_exhausted_never_returns:
  "topoheaderread cv (fs(f \<mapsto> [])) f = None
   \<and> topoheaderread cv (fs(f \<mapsto> [''3 ncols'', ''2 nrows'', ''0.0 xll'', ''0.0 yll'',
                                   ''1.0 cellsize''])) f = None"
  by (simp add: header_eval)

theorem topoheaderread_exhausted_never_returns_witness:
  "topoheaderread id [''topo.tt2'' \<mapsto> [''3 ncols'', ''2 nrows'', ''0.0 xll'', ''0.0 yll'',
                                          ''1.0 cellsize'']] ''topo.tt2'' = None"
  using topoheaderread_exhausted_never_returns[of id Map.empty "''topo.tt2''"] by simp

subsection \<open>Writing: the undefined name\<close>

lemma griddata2topofile_header_NameError:
  "griddata2topofile_header X Y Q nodata_value_out = Inl (NameError ''Z'')"
  by (simp add: griddata2topofile_header_def lookup_array_def module_globals_def)

lemma griddata2topofile_NameError:
  "griddata2topofile str_float X Y Q outputfile topotype nodata_value_in nodata_value_out fs
     = (Inl (NameError ''Z''), fs)"
  by (simp add: griddata2topofile_def griddata2topofile_header_NameError)

lemma converttopotype_no_output:
  "converttopotype cv sf inputfile outputfile tin tout nodata fs = Some (r, fs')
   \<Longrightarrow> fs' = fs \<and> (\<exists>e. r = Inl e)"
  by (auto simp: converttopotype_def griddata2topofile_NameError
           split: option.splits sum.splits prod.splits)

lemma topofilesubset_no_output:
  "topofilesubset cv sf inputfile outputfile tin tout xlow xhi ylow yhi nodata False fs = Some (r, fs')
   \<Longrightarrow> fs' = fs \<and> (\<exists>e. r = Inl e)"
  by (auto simp: topofilesubset_def griddata2topofile_NameError
           split: option.splits sum.splits prod.splits)

lemma chunks_numeral:
  "chunks (numeral k) n xs = take n xs # chunks (pred_numeral k) n (drop n xs)"
  by (simp add: numeral_eq_Suc)

lemmas grid_eval = topofile2griddata_def header_dim_def header_num_def np_array_reshape_def
  linspace_def meshgrid_def flipud_def upt_conv_Cons chunks_numeral Let_def

lemma scenarioA_header:
  "topoheaderread id (fs(''A.tt2'' \<mapsto> scenarioA)) ''A.tt2''
     = Some (Inr ([''1.0'', ''2.0'', ''3.0'', ''4.0'', ''5.0'', ''6.0''],
                  [(''ncols'', PInt 3), (''nrows'', PInt 2), (''xll'', PFloat 0),
                   (''yll'', PFloat 0), (''cellsize'', PFloat 1),
                   (''nodata_value'', PInt (- 9999))]))"
  by (simp add: scenarioA_def header_eval)

lemma scenarioA_values:
  "mapM (\<lambda>row. mapM py_float (split row)) [''1.0'', ''2.0'', ''3.0'', ''4.0'', ''5.0'', ''6.0'']
     = Inr [[1], [2], [3], [4], [5], [6]]"
  by (simp add: split_def is_space_def number_eval)

lemma scenarioA_grid:
  "topofile2griddata id (fs(''A.tt2'' \<mapsto> scenarioA)) ''A.tt2'' 2
     = Some (Inr ([[0, 1, 2], [0, 1, 2]], [[1, 1, 1], [0, 0, 0]], [[1, 2, 3], [4, 5, 6]]))"
  by (simp add: grid_eval scenarioA_header scenarioA_values del: mapM.simps)

text \<open>
  Claim C10 (the undefined name in the writer). For every input
  \<^verbatim>\<open>griddata2topofile\<close> raises NameError for \<^verbatim>\<open>Z\<close> and leaves the file system
  as it was: no file is created or changed. Whenever \<^verbatim>\<open>converttopotype\<close> or the
  materializing branch of \<^verbatim>\<open>topofilesubset\<close> returns, it returns an exception and the
  file system it was given.
\<close>

theorem griddata2topofile_never_writes:
  "griddata2topofile str_float X Y Q outputfile topotype nodata_value_in nodata_value_out fs
     = (Inl (NameError ''Z''), fs)
   \<and> (\<forall>r fs'. converttopotype cv str_float inputfile outputfile tin tout nodata fs = Some (r, fs')
         \<longrightarrow> fs' = fs \<and> (\<exists>e. r = Inl e))
   \<and> (\<forall>r fs'. topofilesubset cv str_float inputfile outputfile tin tout xlow xhi ylow yhi
                  nodata False fs = Some (r, fs')
         \<longrightarrow> fs' = fs \<and> (\<exists>e. r = Inl e))"
proof (intro conjI allI impI)
  show "griddata2topofile str_float X Y Q outputfile topotype nodata_value_in nodata_value_out fs
          = (Inl (NameError ''Z''), fs)"
    by (rule griddata2topofile_NameError)
next
  fix r fs'
  assume "converttopotype cv str_float inputfile outputfile tin tout nodata fs = Some (r, fs')"
  then show "fs' = fs" and "\<exists>e. r = Inl e"
    using converttopotype_no_output by blast+
next
  fix r fs'
  assume "topofilesubset cv str_float inputfile outputfile tin tout xlow xhi ylow yhi
            nodata False fs = Some (r, fs')"
  then show "fs' = fs" and "\<exists>e. r = Inl e"
    using topofilesubset_no_output by blast+
qed

lemma scenarioA_nodata:
  "header_nodata id (fs(''A.tt2'' \<mapsto> scenarioA)) ''A.tt2'' 2 PNone = Some (Inr (PInt (- 9999)))"
  by (simp add: header_nodata_def py_truthy_def scenarioA_header)

theorem griddata2topofile_never_writes_witness:
  "converttopotype id str_float_integral ''A.tt2'' ''A.tt3'' 2 3 PNone [''A.tt2'' \<mapsto> scenarioA]
     = Some (Inl (NameError ''Z''), [''A.tt2'' \<mapsto> scenarioA])"
proof -
  have "converttopotype id str_float_integral ''A.tt2'' ''A.tt3'' 2 3 PNone (Map.empty(''A.tt2'' \<mapsto> scenarioA))
     = Some (griddata2topofile str_float_integral [[0, 1, 2], [0, 1, 2]] [[1, 1, 1], [0, 0, 0]]
               [[1, 2, 3], [4, 5, 6]] ''A.tt3'' 3 (PInt (- 9999)) (PInt (- 9999))
               (Map.empty(''A.tt2'' \<mapsto> scenarioA)))"
    by (simp add: converttopotype_def scenarioA_grid scenarioA_nodata)
  then show ?thesis
    using griddata2topofile_never_writes[of str_float_integral "[[0, 1, 2], [0, 1, 2]]"
        "[[1, 1, 1], [0, 0, 0]]" "[[1, 2, 3], [4, 5, 6]]" "''A.tt3''" 3 "PInt (- 9999)"
        "PInt (- 9999)" "[''A.tt2'' \<mapsto> scenarioA]"]
    by simp
qed

text \<open>
  Claim C1 (raster round trip). The claim asks that writing a grid and reading the file
  back reproduces header and values. On the grid of scenario A (3 columns, 2 rows,
  cell size 1, lower left corner at the origin, values 1 to 6, given by its cell centres)
  the write raises NameError for \<^verbatim>\<open>Z\<close> and leaves the file system as it was, so the
  file to read back does not exist and the read raises IOError.
\<close>

theorem roundtrip_scenarioA_write_raises:
  "griddata2topofile str_float [[0.5, 1.5, 2.5], [0.5, 1.5, 2.5]] [[1.5, 1.5, 1.5], [0.5, 0.5, 0.5]]
       [[1, 2, 3], [4, 5, 6]] ''A.tt2'' 2 (PInt (- 9999)) (PInt (- 9999)) Map.empty
     = (Inl (NameError ''Z''), Map.empty)
   \<and> topofile2griddata id Map.empty ''A.tt2'' 2 = Some (Inl IOError)"
  by (simp add: griddata2topofile_def griddata2topofile_header_def lookup_array_def
        module_globals_def topofile2griddata_def topoheaderread_def)

text \<open>
  Claim C6 (topotype-1 shape inference). The claim asks for arrays of shape
  \<open>(nrows, ncols)\<close> inferred from the first decrease of \<open>x\<close>. For every file the
  topotype-1 branch of \<^verbatim>\<open>topofile2griddata\<close> ends in an exception, and on the
  well-formed file of four points of a 2 by 2 grid it is AttributeError for the
  attribute \<^verbatim>\<open>np\<close> of the array \<^verbatim>\<open>xdiff < 0\<close>.
\<close>

lemma topotype1_never_reads: "\<exists>e. topofile2griddata cv fs f 1 = Some (Inl e)"
  by (auto simp: topofile2griddata_def ndarray_getattr_def ndarray_attributes_def bnd_def
           split: sum.splits)

theorem topotype1_read_raises:
  "(\<exists>e. topofile2griddata cv fs f 1 = Some (Inl e))
   \<and> topofile2griddata cv (fs(f \<mapsto> [''0 1 5'', ''1 1 6'', ''0 0 7'', ''1 0 8''])) f 1
       = Some (Inl (AttributeError ''np''))"
proof -
  have "datafile2array (fs(f \<mapsto> [''0 1 5'', ''1 1 6'', ''0 0 7'', ''1 0 8''])) f
          = Inr [[0, 1, 5], [1, 1, 6], [0, 0, 7], [1, 0, 8]]"
    by (simp add: datafile2array_def split_def is_space_def number_eval)
  then have "topofile2griddata cv (fs(f \<mapsto> [''0 1 5'', ''1 1 6'', ''0 0 7'', ''1 0 8''])) f 1
       = Some (Inl (AttributeError ''np''))"
    by (simp add: topofile2griddata_def column_def py_index_def ndarray_getattr_def
          ndarray_attributes_def del: mapM.simps) (simp add: Let_def)
  with topotype1_never_reads show ?thesis by blast
qed

theorem topotype1_read_raises_witness:
  "topofile2griddata id [''xyz.tt1'' \<mapsto> [''0 1 5'', ''1 1 6'', ''0 0 7'', ''1 0 8'']] ''xyz.tt1'' 1
       = Some (Inl (AttributeError ''np''))"
  using topotype1_read_raises[of id Map.empty "''xyz.tt1''"] by simp

subsection \<open>Point sampler\<close>

















lemmas index_eval = py_index_def idx2_def column_def np_where_def upt_conv_Cons float_div_def
  Let_def





subsection \<open>Coordinates on the read path\<close>

lemma linspace_length: "length (linspace a b n) = n"
  by (simp add: linspace_def)

lemma linspace_nth:
  "j < n \<Longrightarrow> linspace a (a + c * (real n - 1)) n ! j = a + real j * c"
  by (cases "n = 1") (auto simp: linspace_def of_nat_diff)

lemma read_mesh:
  assumes "i < nrows" "j < ncols"
  shows "fst (meshgrid (linspace xll (xll + c * (real ncols - 1)) ncols)
                       (linspace yll (yll + c * (real nrows - 1)) nrows)) ! i ! j
           = xll + real j * c"
    and "flipud (snd (meshgrid (linspace xll (xll + c * (real ncols - 1)) ncols)
                               (linspace yll (yll + c * (real nrows - 1)) nrows))) ! i ! j
           = yll + real (nrows - 1 - i) * c"
  using assms
  by (simp_all add: meshgrid_def flipud_def linspace_length linspace_nth rev_nth rev_map[symmetric]
        del: rev_map)

text \<open>
  Claim C3 (edge/centre asymmetry). The read half holds: whenever a file of
  \<^verbatim>\<open>topotype > 1\<close> reads as \<open>(X, Y, Z)\<close> under a header with corner \<open>(xll, yll)\<close>,
  cell size \<open>cellsize\<close> and \<open>nrows\<close> by \<open>ncols\<close> cells, the meshes have that shape,
  \<open>X[i, j] = xll + j * cellsize\<close> and \<open>Y[i, j] = yll + (nrows - 1 - i) * cellsize\<close>, so
  row 0 is the northernmost. The write half does not: for every grid of cell centres
  the computation of the header \<open>xll = X[0,0] - cellsize / 2\<close> in
  \<^verbatim>\<open>griddata2topofile\<close> is never reached, NameError for \<^verbatim>\<open>Z\<close> is raised first.
\<close>

theorem read_edge_anchored_write_raises:
  assumes "1 < topotype"
      and "topoheaderread cv fs f = Some (Inr (fin, th))"
      and "topofile2griddata cv fs f topotype = Some (Inr (X, Y, Z))"
      and "header_num th ''xll'' = Inr xll" and "header_num th ''yll'' = Inr yll"
      and "header_num th ''cellsize'' = Inr cellsize"
      and "header_dim th ''nrows'' = Inr nrows" and "header_dim th ''ncols'' = Inr ncols"
  shows "length X = nrows \<and> length Y = nrows
         \<and> (\<forall>i < nrows. length (X ! i) = ncols \<and> length (Y ! i) = ncols
               \<and> (\<forall>j < ncols. X ! i ! j = xll + real j * cellsize
                             \<and> Y ! i ! j = yll + real (nrows - 1 - i) * cellsize))
         \<and> griddata2topofile_header Xc Yc Q nodata_value_out = Inl (NameError ''Z'')"
proof -
  let ?x = "linspace xll (xll + cellsize * (real ncols - 1)) ncols"
  let ?y = "linspace yll (yll + cellsize * (real nrows - 1)) nrows"
  from assms have XY: "X = fst (meshgrid ?x ?y)" "Y = flipud (snd (meshgrid ?x ?y))"
    by (auto simp: topofile2griddata_def Let_def bnd_def split: sum.splits prod.splits)
  have len: "length X = nrows" "length Y = nrows"
    by (simp_all add: XY meshgrid_def flipud_def linspace_length)
  have row: "length (X ! i) = ncols \<and> length (Y ! i) = ncols" if "i < nrows" for i
    using that by (simp add: XY meshgrid_def flipud_def linspace_length rev_nth)
  have val: "X ! i ! j = xll + real j * cellsize \<and> Y ! i ! j = yll + real (nrows - 1 - i) * cellsize"
    if "i < nrows" "j < ncols" for i j
    unfolding XY using read_mesh[OF that] by simp
  show ?thesis
    using len row val griddata2topofile_header_NameError by simp
qed

theorem read_edge_anchored_write_raises_witness:
  "topofile2griddata id [''A.tt2'' \<mapsto> scenarioA] ''A.tt2'' 2
     = Some (Inr ([[0, 1, 2], [0, 1, 2]], [[1, 1, 1], [0, 0, 0]], [[1, 2, 3], [4, 5, 6]]))
   \<and> [[0, 1, 2], [0, 1, 2]] ! 1 ! 2 = (0::real) + real 2 * 1
   \<and> [[1, 1, 1], [0, 0, 0]] ! 0 ! 2 = (0::real) + real (2 - 1 - 0) * 1
   \<and> griddata2topofile_header [[0.5, 1.5], [0.5, 1.5]] [[1.5, 1.5], [0.5, 0.5]] [[1, 2], [3, 4]]
        (PInt (- 9999)) = Inl (NameError ''Z'')"
proof -
  let ?th = "[(''ncols'', PInt 3), (''nrows'', PInt 2), (''xll'', PFloat 0),
              (''yll'', PFloat 0), (''cellsize'', PFloat 1), (''nodata_value'', PInt (- 9999))]"
  have h: "header_num ?th ''xll'' = Inr 0" "header_num ?th ''yll'' = Inr 0"
          "header_num ?th ''cellsize'' = Inr 1"
          "header_dim ?th ''nrows'' = Inr 2" "header_dim ?th ''ncols'' = Inr 3"
    by (simp_all add: header_num_def header_dim_def)
  have t: "(1::int) < 2" by simp
  note r = read_edge_anchored_write_raises[OF t scenarioA_header[of Map.empty]
      scenarioA_grid[of Map.empty] h,
      of "[[0.5, 1.5], [0.5, 1.5]]" "[[1.5, 1.5], [0.5, 0.5]]" "[[1, 2], [3, 4]]" "PInt (- 9999)"]
  from r have "griddata2topofile_header [[0.5, 1.5], [0.5, 1.5]] [[1.5, 1.5], [0.5, 0.5]]
                 [[1, 2], [3, 4]] (PInt (- 9999)) = Inl (NameError ''Z'')"
    by (elim conjE)
  then show ?thesis
    using scenarioA_grid[of Map.empty] by simp
qed

subsection \<open>The two subset paths\<close>

lemma subset_while_step: "0 < fst (snd (snd st))
   \<Longrightarrow> subset_while sweep st = subset_while sweep (sweep st)"
  by (subst subset_while.simps) simp

lemma subset_while_done: "fst (snd (snd st)) \<le> 0 \<Longrightarrow> subset_while sweep st = Some st"
  by (subst subset_while.simps) simp

lemma scenarioA_subset_header:
  "subset_header [(''ncols'', PInt 3), (''nrows'', PInt 2), (''xll'', PFloat 0),
                  (''yll'', PFloat 0), (''cellsize'', PFloat 1), (''nodata_value'', PInt (- 9999))]
      (- 1000000) 1000000 (- 1000000) 1000000
   = Inr ([(''xll'', PFloat 0), (''yll'', PFloat 0), (''ncols'', PInt 3), (''nrows'', PInt 2),
           (''cellsize'', PFloat 1), (''nodata_value'', PInt (- 9999))], 6, 0, 1, 1)"
  by (simp add: subset_header_def header_num_def py_div_def py_trunc_def Let_def)

lemma scenarioA_header_out:
  "topoheaderwrite str_float_integral
     [(''xll'', PFloat 0), (''yll'', PFloat 0), (''ncols'', PInt 3), (''nrows'', PInt 2),
      (''cellsize'', PFloat 1), (''nodata_value'', PInt (- 9999))]
   = (Inr (), ''3 ncols'' @ newline @ ''2 nrows'' @ newline @ ''0.0 xll'' @ newline
              @ ''0.0 yll'' @ newline @ ''1.0 cellsize'' @ newline
              @ ''-9999 nodata_value'' @ newline)"
  by (simp add: topoheaderwrite_def header_field_def str_val_def float_of_def
        str_float_integral_def str_int_def str_nat.simps digit_char_def)

lemma scenarioA_sweep:
  "subset_sweep (- 1000000) 1000000 (- 1000000) 1000000 0 1 1 2 3
     ([''1.0'', ''2.0'', ''3.0'', ''4.0'', ''5.0'', ''6.0''], buf, 6, 0)
   = ([], buf @ ''1.0  '' @ newline @ ''2.0  '' @ newline @ ''3.0  '' @ newline
             @ ''4.0  '' @ newline @ ''5.0  '' @ newline @ ''6.0  '' @ newline, 0, 6)"
  by (simp add: subset_sweep_def cells_def upt_conv_Cons subset_cell_def readline_def
        split_def is_space_def Let_def)

text \<open>
  Claim C8 (streaming and materializing subset agree). On the file of scenario A with
  the default box, which holds the whole grid, the materializing branch
  (\<^verbatim>\<open>cheap=False\<close>) raises NameError for \<^verbatim>\<open>Z\<close> and writes nothing, while the
  streaming branch (\<^verbatim>\<open>cheap=True\<close>) returns and writes the header and the six
  values.
\<close>

theorem subset_paths_disagree:
  "topofilesubset id str_float_integral ''A.tt2'' ''sub.tt2'' 2 2
       (- 1000000) 1000000 (- 1000000) 1000000 PNone False [''A.tt2'' \<mapsto> scenarioA]
     = Some (Inl (NameError ''Z''), [''A.tt2'' \<mapsto> scenarioA])
   \<and> topofilesubset id str_float_integral ''A.tt2'' ''sub.tt2'' 2 2
       (- 1000000) 1000000 (- 1000000) 1000000 PNone True [''A.tt2'' \<mapsto> scenarioA]
     = Some (Inr (), [''A.tt2'' \<mapsto> scenarioA,
                      ''sub.tt2'' \<mapsto> [''3 ncols'', ''2 nrows'', ''0.0 xll'', ''0.0 yll'',
                                       ''1.0 cellsize'', ''-9999 nodata_value'',
                                       ''1.0  '', ''2.0  '', ''3.0  '', ''4.0  '', ''5.0  '',
                                       ''6.0  '']])"
proof -
  have "griddatasubset [[0, 1, 2], [0, 1, 2]] [[1, 1, 1], [0, 0, 0]] [[1, 2, 3], [4, 5, 6]]
          (- 1000000) 1000000 (- 1000000) 1000000
        = Inr ([[0, 1, 2], [0, 1, 2]], [[1, 1, 1], [0, 0, 0]], [[1, 2, 3], [4, 5, 6]])"
    by (simp add: griddatasubset_def np_ix_def index_eval)
  then have a: "topofilesubset id str_float_integral ''A.tt2'' ''sub.tt2'' 2 2
       (- 1000000) 1000000 (- 1000000) 1000000 PNone False [''A.tt2'' \<mapsto> scenarioA]
     = Some (Inl (NameError ''Z''), [''A.tt2'' \<mapsto> scenarioA])"
    by (simp add: topofilesubset_def scenarioA_grid scenarioA_nodata griddata2topofile_NameError)
  have b: "topofilesubset id str_float_integral ''A.tt2'' ''sub.tt2'' 2 2
       (- 1000000) 1000000 (- 1000000) 1000000 PNone True [''A.tt2'' \<mapsto> scenarioA]
     = Some (Inr (), [''A.tt2'' \<mapsto> scenarioA,
                      ''sub.tt2'' \<mapsto> [''3 ncols'', ''2 nrows'', ''0.0 xll'', ''0.0 yll'',
                                       ''1.0 cellsize'', ''-9999 nodata_value'',
                                       ''1.0  '', ''2.0  '', ''3.0  '', ''4.0  '', ''5.0  '',
                                       ''6.0  '']])"
    by (simp add: topofilesubset_def topofilesubset_cheap_def scenarioA_header
          scenarioA_subset_header scenarioA_header_out header_range_def
          subset_while_step scenarioA_sweep subset_while_done lines_of_def newline_def)
  from a b show ?thesis by blast
qed

end
